theory Spec2Isabelle
  imports Main "HOL-Library.AList" "HOL-Library.Word"
begin

section \<open>The model package: strings, messages, conversation identities\<close>

text \<open>
  A Go string is a sequence of bytes and \<open>s < t\<close> compares byte by byte, a proper
  prefix being smaller. \<open>string\<close> is \<open>char list\<close> and a \<open>char\<close> is one byte, so
  \<open>strLess\<close> is that comparison.
\<close>

fun strLess :: "string \<Rightarrow> string \<Rightarrow> bool" where
  "strLess [] [] = False"
| "strLess [] (y # ys) = True"
| "strLess (x # xs) [] = False"
| "strLess (x # xs) (y # ys) =
     ((of_char x :: nat) < of_char y \<or> (x = y \<and> strLess xs ys))"

text \<open>\<open>strings.HasPrefix(s, p)\<close>.\<close>

fun HasPrefix :: "string \<Rightarrow> string \<Rightarrow> bool" where
  "HasPrefix s [] = True"
| "HasPrefix [] (p # ps) = False"
| "HasPrefix (c # cs) (p # ps) = (c = p \<and> HasPrefix cs ps)"

text \<open>
  \<open>MessageType\<close> is a Go \<open>int\<close>: a frame may carry any integer, and the handler's
  \<open>switch\<close> has a default branch. The named constants are those of the source.
\<close>

type_synonym MessageType = int

abbreviation (input) MsgText :: MessageType where "MsgText \<equiv> 0"
abbreviation (input) MsgSingleChat :: MessageType where "MsgSingleChat \<equiv> 1"
abbreviation (input) MsgGroupChat :: MessageType where "MsgGroupChat \<equiv> 2"
abbreviation (input) MsgSystem :: MessageType where "MsgSystem \<equiv> 3"
abbreviation (input) MsgAck :: MessageType where "MsgAck \<equiv> 30"
abbreviation (input) MsgReadReceipt :: MessageType where "MsgReadReceipt \<equiv> 31"
abbreviation (input) MsgRevoke :: MessageType where "MsgRevoke \<equiv> 32"
abbreviation (input) MsgTyping :: MessageType where "MsgTyping \<equiv> 33"
abbreviation (input) MsgHeartbeat :: MessageType where "MsgHeartbeat \<equiv> 99"
abbreviation (input) MsgKickout :: MessageType where "MsgKickout \<equiv> 100"

text \<open>
  \<open>Message.Content\<close> is an \<open>interface{}\<close>. The dynamic types that the gateway
  builds or inspects are the typed content structs and, for a decoded frame, the
  \<open>map[string]interface{}\<close> that \<open>encoding/json\<close> produces for a JSON object;
  every other dynamic value (a JSON string, number, array, null) is \<open>OtherContent\<close>.
  Of a map value only "is it a string, and which" is ever asked (\<open>getString\<close>).
\<close>

datatype JValue = JString string | JNumber int | JOther

datatype Content =
    NilContent
  | KickoutContent string string
  | AckContent string int
  | HeartbeatContent int
  | ReadReceiptContent string int
  | MapContent "(string \<times> JValue) list"
  | OtherContent string

record Message =
  MessageID :: string
  Type :: MessageType
  From :: string
  To :: string
  Content :: Content
  ContentRaw :: string
  Timestamp :: int
  ClientTimestamp :: int
  QoS :: int
  ConversationID :: string
  Seq :: int
  Revoked :: bool

text \<open>The zero value of the struct, as a composite literal leaves the unnamed fields.\<close>

definition zeroMessage :: Message where
  "zeroMessage =
     \<lparr> MessageID = [], Type = 0, From = [], To = [], Content = NilContent,
       ContentRaw = [], Timestamp = 0, ClientTimestamp = 0, QoS = 0,
       ConversationID = [], Seq = 0, Revoked = False \<rparr>"

text \<open>\<open>time.Now().UnixMilli()\<close> is read twice; both readings are arguments.\<close>

definition NewHeartbeatMessage :: "int \<Rightarrow> int \<Rightarrow> Message" where
  "NewHeartbeatMessage t1 t2 =
     zeroMessage\<lparr> Type := MsgHeartbeat, Content := HeartbeatContent t1, Timestamp := t2 \<rparr>"

definition NewAckMessage :: "int \<Rightarrow> string \<Rightarrow> int \<Rightarrow> Message" where
  "NewAckMessage t messageID status =
     zeroMessage\<lparr> Type := MsgAck, Content := AckContent messageID status, Timestamp := t \<rparr>"

definition GetSingleChatConversationID :: "string \<Rightarrow> string \<Rightarrow> string" where
  "GetSingleChatConversationID userID1 userID2 =
     (if strLess userID1 userID2 then ''single:'' @ userID1 @ '':'' @ userID2
      else ''single:'' @ userID2 @ '':'' @ userID1)"

definition GetGroupChatConversationID :: "string \<Rightarrow> string" where
  "GetGroupChatConversationID groupID = ''group:'' @ groupID"

section \<open>Connection\<close>

datatype ConnectionState = StateConnecting | StateConnected | StateClosing | StateClosed

datatype error =
    ErrConnectionClosed
  | ErrSendBufferFull
  | ErrInvalidMessage
  | ErrUserNotOnline
  | MarshalError
  | ExternalError string
  | GetUserNodeError string error
  | PublishToNodeError error
  | SaveOfflineError error
  | DispatchErrors "error list"

text \<open>
  The transport (\<open>*websocket.Conn\<close>) is outside the repository; of it the model
  keeps what \<open>Close\<close> observes: the error its \<open>Close()\<close> returns, and how often it
  has been called.
\<close>

record WsConn =
  wsCloseErr :: "error option"
  wsCloses :: nat

text \<open>
  \<open>Send\<close> is the buffered channel: the queued items in FIFO order, and \<open>sendCap\<close>
  its capacity (\<open>config.SendChannelSize\<close>). \<open>close(c.closedCh)\<close> and \<open>close(c.Send)\<close>
  are executed only inside \<open>Close\<close>, in the critical section that sets \<open>closed\<close>;
  \<open>doneCloses\<close> and \<open>sendCloses\<close> count these executions. Times are \<open>int64\<close>
  clock readings that are stored and compared, never computed with. A channel of
  capacity 0 is unbuffered in Go, and a send on it succeeds only while a receiver is
  waiting; the model has no concurrent receiver and counts such a queue as full.
\<close>

record Connection =
  ID :: string
  UserID :: string
  Conn :: WsConn
  Send :: "string list"
  sendCap :: nat
  NodeID :: string
  Platform :: string
  DeviceID :: string
  State :: ConnectionState
  LastActive :: int
  CreatedAt :: int
  closed :: bool
  doneCloses :: nat
  sendCloses :: nat

definition DefaultSendChannelSize :: nat where
  "DefaultSendChannelSize = 256"

text \<open>\<open>config\<close> is \<open>None\<close> for a nil pointer, else the channel size it holds.\<close>

definition NewConnection ::
  "int \<Rightarrow> int \<Rightarrow> string \<Rightarrow> string \<Rightarrow> string \<Rightarrow> WsConn \<Rightarrow> nat option \<Rightarrow> Connection" where
  "NewConnection t1 t2 connID userID nodeID conn config =
     \<lparr> ID = connID, UserID = userID, Conn = conn, Send = [],
       sendCap = (case config of None \<Rightarrow> DefaultSendChannelSize | Some n \<Rightarrow> n),
       NodeID = nodeID, Platform = [], DeviceID = [], State = StateConnected,
       LastActive = t1, CreatedAt = t2, closed = False, doneCloses = 0, sendCloses = 0 \<rparr>"

text \<open>
  Every operation takes the connection and returns what the method returns together
  with the connection afterwards. The mutex serialises the critical sections, so one
  call is one step.
\<close>

definition Close :: "Connection \<Rightarrow> error option \<times> Connection" where
  "Close c =
     (if closed c then (None, c)
      else (wsCloseErr (Conn c),
            c\<lparr> closed := True, State := StateClosed,
               doneCloses := doneCloses c + 1, sendCloses := sendCloses c + 1,
               Conn := (Conn c)\<lparr> wsCloses := wsCloses (Conn c) + 1 \<rparr> \<rparr>))"

definition IsClosed :: "Connection \<Rightarrow> bool" where
  "IsClosed c = closed c"

text \<open>
  The \<open>select\<close> with a \<open>default\<close> branch: the item is appended when the buffer has
  room, and otherwise the call returns at once with \<open>ErrSendBufferFull\<close>.
\<close>

definition SendMessage :: "Connection \<Rightarrow> string \<Rightarrow> error option \<times> Connection" where
  "SendMessage c data =
     (if closed c then (Some ErrConnectionClosed, c)
      else if length (Send c) < sendCap c then (None, c\<lparr> Send := Send c @ [data] \<rparr>)
      else (Some ErrSendBufferFull, c))"

text \<open>
  \<open>json.Marshal\<close> is the argument \<open>marshal\<close>: \<open>None\<close> where it returns an error.
\<close>

definition SendJSON ::
  "(Message \<Rightarrow> string option) \<Rightarrow> Connection \<Rightarrow> Message \<Rightarrow> error option \<times> Connection" where
  "SendJSON marshal c v =
     (case marshal v of
        None \<Rightarrow> (Some MarshalError, c)
      | Some data \<Rightarrow> SendMessage c data)"

definition UpdateLastActive :: "int \<Rightarrow> Connection \<Rightarrow> Connection" where
  "UpdateLastActive now c = c\<lparr> LastActive := now \<rparr>"

definition GetLastActive :: "Connection \<Rightarrow> int" where
  "GetLastActive c = LastActive c"

definition SetPlatform :: "Connection \<Rightarrow> string \<Rightarrow> Connection" where
  "SetPlatform c platform = c\<lparr> Platform := platform \<rparr>"

definition SetDeviceID :: "Connection \<Rightarrow> string \<Rightarrow> Connection" where
  "SetDeviceID c deviceID = c\<lparr> DeviceID := deviceID \<rparr>"

section \<open>ConnectionManager\<close>

text \<open>
  Connections are shared objects reached through pointers: the registry stores
  pointers, and \<open>Register\<close> mutates the connection a stored pointer leads to. The
  heap maps a pointer to the connection it refers to (pointers handed to the manager
  come from \<open>NewConnection\<close> and are never nil). A \<open>sync.Map\<close> with string keys is an
  association list with at most one entry per key: \<open>map_of\<close> is \<open>Load\<close>,
  \<open>AList.update\<close> is \<open>Store\<close>, \<open>AList.delete\<close> is \<open>Delete\<close>.
\<close>

type_synonym ptr = nat
type_synonym heap = "ptr \<Rightarrow> Connection"
type_synonym 'v syncMap = "(string \<times> 'v) list"

text \<open>
  \<open>onConnect\<close> tells whether a callback is installed; \<open>onConnectCalls\<close> lists the
  connections for which it has been started (\<open>go m.onConnect(conn)\<close>).
\<close>

record ConnectionManager =
  connections :: "ptr syncMap"
  connByID :: "ptr syncMap"
  nodeID :: string
  totalConnections :: "64 word"
  activeUsers :: "64 word"
  onConnect :: bool
  onConnectCalls :: "ptr list"

definition NewConnectionManager :: "string \<Rightarrow> ConnectionManager" where
  "NewConnectionManager node =
     \<lparr> connections = [], connByID = [], nodeID = node, totalConnections = 0,
       activeUsers = 0, onConnect = False, onConnectCalls = [] \<rparr>"

definition countActiveUsers :: "ConnectionManager \<Rightarrow> 64 word" where
  "countActiveUsers m = of_nat (length (connections m))"

definition GetConnection :: "ConnectionManager \<Rightarrow> string \<Rightarrow> ptr option" where
  "GetConnection m userID = map_of (connections m) userID"

definition GetConnectionByID :: "ConnectionManager \<Rightarrow> string \<Rightarrow> ptr option" where
  "GetConnectionByID m connID = map_of (connByID m) connID"

text \<open>The reason text of the kick-out notice, as its UTF-8 bytes.\<close>

definition kickReason :: string where
  "kickReason = map char_of
     [230, 130, 168, 231, 154, 132, 232, 180, 166, 229, 143, 183, 229, 156, 168, 229, 133,
      182, 228, 187, 150, 232, 174, 190, 229, 164, 135, 231, 153, 187, 229, 189, 149 :: nat]"

definition kickMsg :: "int \<Rightarrow> string \<Rightarrow> Message" where
  "kickMsg now deviceID =
     zeroMessage\<lparr> Type := MsgKickout, Content := KickoutContent kickReason deviceID,
                  Timestamp := now \<rparr>"

text \<open>
  \<open>Register\<close> in its two parts: the \<open>if\<close> block that kicks out the connection
  found under the user id (\<open>LoadAndDelete\<close>, \<open>SendJSON\<close>, \<open>Close\<close>, \<open>connByID.Delete\<close>),
  and the rest, which stores the new connection and updates the statistics.
\<close>

definition evictOld ::
  "(Message \<Rightarrow> string option) \<Rightarrow> int \<Rightarrow> ConnectionManager \<times> heap \<Rightarrow> ptr
     \<Rightarrow> ConnectionManager \<times> heap" where
  "evictOld marshal now mh conn =
     (case mh of (m, h) \<Rightarrow>
        (case map_of (connections m) (UserID (h conn)) of
           None \<Rightarrow> (m, h)
         | Some oldConn \<Rightarrow>
             let m1 = m\<lparr> connections := AList.delete (UserID (h conn)) (connections m) \<rparr>;
                 c1 = snd (SendJSON marshal (h oldConn) (kickMsg now (DeviceID (h conn))));
                 c2 = snd (Close c1);
                 h1 = h(oldConn := c2)
             in (m1\<lparr> connByID := AList.delete (ID (h1 oldConn)) (connByID m1) \<rparr>, h1)))"

definition storeNew :: "ConnectionManager \<times> heap \<Rightarrow> ptr \<Rightarrow> ConnectionManager \<times> heap" where
  "storeNew mh conn =
     (case mh of (m, h) \<Rightarrow>
        let m1 = m\<lparr> connections := AList.update (UserID (h conn)) conn (connections m) \<rparr>;
            m2 = m1\<lparr> connByID := AList.update (ID (h conn)) conn (connByID m1) \<rparr>;
            m3 = m2\<lparr> totalConnections := totalConnections m2 + 1 \<rparr>;
            m4 = m3\<lparr> activeUsers := countActiveUsers m3 \<rparr>
        in (if onConnect m4 then m4\<lparr> onConnectCalls := onConnectCalls m4 @ [conn] \<rparr> else m4,
            h))"

definition Register ::
  "(Message \<Rightarrow> string option) \<Rightarrow> int \<Rightarrow> ConnectionManager \<times> heap \<Rightarrow> ptr
     \<Rightarrow> ConnectionManager \<times> heap" where
  "Register marshal now mh conn = storeNew (evictOld marshal now mh conn) conn"

section \<open>MessageDeduper\<close>

text \<open>
  The cache is a Go map from message id to first-seen time (Unix seconds). It is an
  association list with one entry per key; the order of the list is the order in
  which \<open>range\<close> visits the entries, which Go leaves unspecified. \<open>size_d\<close> is the
  field \<open>size\<close>, a Go \<open>int\<close>.
\<close>

record MessageDeduper =
  cache :: "(string \<times> int) list"
  size_d :: int

definition NewMessageDeduper :: "int \<Rightarrow> MessageDeduper" where
  "NewMessageDeduper n = \<lparr> cache = [], size_d = n \<rparr>"

text \<open>The loop of \<open>evictOldest\<close>: the running pair is (\<open>oldest\<close>, \<open>oldestKey\<close>).\<close>

fun scanOldest :: "(string \<times> int) list \<Rightarrow> int \<times> string \<Rightarrow> int \<times> string" where
  "scanOldest [] acc = acc"
| "scanOldest ((k, v) # kvs) (oldest, oldestKey) =
     (if v < oldest then scanOldest kvs (v, k) else scanOldest kvs (oldest, oldestKey))"

definition evictOldest :: "int \<Rightarrow> MessageDeduper \<Rightarrow> MessageDeduper" where
  "evictOldest now d =
     (let oldestKey = snd (scanOldest (cache d) (now, []))
      in if oldestKey \<noteq> [] then d\<lparr> cache := AList.delete oldestKey (cache d) \<rparr> else d)"

text \<open>
  \<open>IsDuplicate\<close> reads the clock in \<open>evictOldest\<close> (\<open>evictNow\<close>) and again when it
  stores the id (\<open>seenNow\<close>).
\<close>

definition IsDuplicate ::
  "int \<Rightarrow> int \<Rightarrow> MessageDeduper \<Rightarrow> string \<Rightarrow> bool \<times> MessageDeduper" where
  "IsDuplicate evictNow seenNow d messageID =
     (if map_of (cache d) messageID \<noteq> None then (True, d)
      else
        let d1 = (if int (length (cache d)) \<ge> size_d d then evictOldest evictNow d else d)
        in (False, d1\<lparr> cache := AList.update messageID seenNow (cache d1) \<rparr>))"

section \<open>WebSocketHandler: the per-frame protocol handler\<close>

text \<open>
  The handler's collaborators are interfaces whose implementations lie outside the
  gateway. Each call made on one is recorded, in order, as a \<open>call\<close>; what the
  collaborator returns is a function of the arguments, held in the handler. The
  message saver of this repository (\<open>messageServiceImpl.SaveMessage\<close>) copies
  fields out of the message and does not write to it, so a save leaves the message
  as it is.
\<close>

datatype call =
    SaveMessageCall Message
  | DispatchToUsersCall "string list" Message
  | DispatchToConversationCall string Message string
  | OnMessageCall Message

record WebSocketHandler =
  deduper :: MessageDeduper
  messageSaver :: "(Message \<Rightarrow> error option) option"
  dispatchToUsers :: "string list \<Rightarrow> Message \<Rightarrow> error option"
  dispatchToConversation :: "string \<Rightarrow> Message \<Rightarrow> string \<Rightarrow> error option"
  onMessage :: "(Message \<Rightarrow> error option) option"

text \<open>
  What one call of \<open>handleMessage\<close> reads from outside: the clock where the frame
  is stamped, the id generator, the two clock readings of the deduper, and the clock
  readings of the reply constructors.
\<close>

record Reads =
  nowMilli :: int
  newMessageID :: string
  evictNow :: int
  seenNow :: int
  replyNow1 :: int
  replyNow2 :: int

definition callsOfSave :: "WebSocketHandler \<Rightarrow> Message \<Rightarrow> call list" where
  "callsOfSave h msg = (case messageSaver h of None \<Rightarrow> [] | Some save \<Rightarrow> [SaveMessageCall msg])"

definition handleHeartbeat ::
  "(Message \<Rightarrow> string option) \<Rightarrow> Reads \<Rightarrow> Connection \<Rightarrow> Message
     \<Rightarrow> error option \<times> Connection \<times> call list" where
  "handleHeartbeat marshal r conn msg =
     (let res = SendJSON marshal conn (NewHeartbeatMessage (replyNow1 r) (replyNow2 r))
      in (fst res, snd res, []))"

definition handleSingleChat ::
  "(Message \<Rightarrow> string option) \<Rightarrow> Reads \<Rightarrow> WebSocketHandler \<Rightarrow> Connection \<Rightarrow> Message
     \<Rightarrow> error option \<times> Connection \<times> call list" where
  "handleSingleChat marshal r h conn msg =
     (let msg1 = msg\<lparr> ConversationID := GetSingleChatConversationID (From msg) (To msg) \<rparr>;
          ack = NewAckMessage (replyNow1 r) (MessageID msg1) 0;
          conn1 = snd (SendJSON marshal conn ack)
      in (dispatchToUsers h [To msg1] msg1, conn1,
          callsOfSave h msg1 @ [DispatchToUsersCall [To msg1] msg1]))"

definition handleGroupChat ::
  "(Message \<Rightarrow> string option) \<Rightarrow> Reads \<Rightarrow> WebSocketHandler \<Rightarrow> Connection \<Rightarrow> Message
     \<Rightarrow> error option \<times> Connection \<times> call list" where
  "handleGroupChat marshal r h conn msg =
     (let msg1 = msg\<lparr> ConversationID := GetGroupChatConversationID (To msg) \<rparr>;
          ack = NewAckMessage (replyNow1 r) (MessageID msg1) 0;
          conn1 = snd (SendJSON marshal conn ack)
      in (dispatchToConversation h (ConversationID msg1) msg1 (From msg1), conn1,
          callsOfSave h msg1
            @ [DispatchToConversationCall (ConversationID msg1) msg1 (From msg1)]))"

definition handleAck :: "Connection \<Rightarrow> Message \<Rightarrow> error option \<times> Connection \<times> call list" where
  "handleAck conn msg = (None, conn, [])"

definition getString :: "(string \<times> JValue) list \<Rightarrow> string \<Rightarrow> string" where
  "getString m key = (case map_of m key of Some (JString s) \<Rightarrow> s | _ \<Rightarrow> [])"

text \<open>
  The two type assertions on \<open>msg.Content\<close>: the conversation id of the receipt, or
  \<open>None\<close> where the handler returns nil at once. (\<open>LastReadSeq\<close> is filled in by the
  source and not read afterwards.)
\<close>

fun receiptConversationID :: "Content \<Rightarrow> string option" where
  "receiptConversationID (ReadReceiptContent conversationID lastReadSeq) = Some conversationID"
| "receiptConversationID (MapContent contentMap) = Some (getString contentMap ''conversation_id'')"
| "receiptConversationID other = None"

text \<open>
  \<open>for i := len(parts) - 1; i >= 0; i--\<close>: \<open>splitBack parts (Suc i)\<close> looks at index
  \<open>i\<close> and goes on to \<open>i - 1\<close>; at the first underscore it yields
  \<open>(parts[:i], parts[i+1:])\<close>.
\<close>

fun splitBack :: "string \<Rightarrow> nat \<Rightarrow> (string \<times> string) option" where
  "splitBack parts 0 = None"
| "splitBack parts (Suc i) =
     (if parts ! i = CHR ''_'' then Some (take i parts, drop (Suc i) parts)
      else splitBack parts i)"

definition handleReadReceipt ::
  "WebSocketHandler \<Rightarrow> Connection \<Rightarrow> Message \<Rightarrow> error option \<times> Connection \<times> call list" where
  "handleReadReceipt h conn msg =
     (case receiptConversationID (Content msg) of
        None \<Rightarrow> (None, conn, [])
      | Some conversationID \<Rightarrow>
          if HasPrefix conversationID ''single_'' then
            (let parts = drop 7 conversationID
             in case splitBack parts (length parts) of
                  Some (user1, user2) \<Rightarrow>
                    let targetUser = (if user1 = UserID conn then user2 else user1)
                    in (dispatchToUsers h [targetUser] msg, conn,
                        [DispatchToUsersCall [targetUser] msg])
                | None \<Rightarrow> (None, conn, []))
          else (None, conn, []))"

definition handleTyping ::
  "WebSocketHandler \<Rightarrow> Connection \<Rightarrow> Message \<Rightarrow> error option \<times> Connection \<times> call list" where
  "handleTyping h conn msg =
     (if To msg \<noteq> [] then
        (dispatchToUsers h [To msg] msg, conn, [DispatchToUsersCall [To msg] msg])
      else (None, conn, []))"

text \<open>The \<open>switch\<close> on the message type, for a frame that is not a duplicate.\<close>

definition handleByType ::
  "(Message \<Rightarrow> string option) \<Rightarrow> Reads \<Rightarrow> WebSocketHandler \<Rightarrow> Connection \<Rightarrow> Message
     \<Rightarrow> error option \<times> Connection \<times> call list" where
  "handleByType marshal r h conn msg =
     (if Type msg = MsgHeartbeat then handleHeartbeat marshal r conn msg
      else if Type msg = MsgSingleChat \<or> Type msg = MsgText then
        handleSingleChat marshal r h conn msg
      else if Type msg = MsgGroupChat then handleGroupChat marshal r h conn msg
      else if Type msg = MsgAck then handleAck conn msg
      else if Type msg = MsgReadReceipt then handleReadReceipt h conn msg
      else if Type msg = MsgTyping then handleTyping h conn msg
      else (case onMessage h of
              Some hook \<Rightarrow> (hook msg, conn, [OnMessageCall msg])
            | None \<Rightarrow> (None, conn, [])))"

text \<open>
  The first lines of \<open>handleMessage\<close>: the frame as it is after the sender and the
  timestamp have been written and the message id filled in.
\<close>

definition stampMessage :: "Reads \<Rightarrow> Connection \<Rightarrow> Message \<Rightarrow> Message" where
  "stampMessage r conn msg =
     (let msg1 = msg\<lparr> From := UserID conn, Timestamp := nowMilli r \<rparr>
      in if MessageID msg1 = [] then msg1\<lparr> MessageID := newMessageID r \<rparr> else msg1)"

definition handleMessage ::
  "(Message \<Rightarrow> string option) \<Rightarrow> Reads \<Rightarrow> WebSocketHandler \<Rightarrow> Connection \<Rightarrow> Message
     \<Rightarrow> error option \<times> WebSocketHandler \<times> Connection \<times> call list" where
  "handleMessage marshal r h conn msg =
     (let msg1 = stampMessage r conn msg;
          dup = IsDuplicate (evictNow r) (seenNow r) (deduper h) (MessageID msg1);
          h1 = h\<lparr> deduper := snd dup \<rparr>
      in if fst dup then (None, h1, conn, [])
         else (let res = handleByType marshal r h1 conn msg1
               in (fst res, h1, fst (snd res), snd (snd res))))"

section \<open>messageDispatcherImpl\<close>

text \<open>
  The shared store (Redis) and the local \<open>Conn\<close> objects are outside the gateway:
  a lookup of a key answers \<open>redis.Nil\<close>, an error, or a value; a publish and a
  \<open>SendData\<close> answer an error or nil. Every call that leaves the dispatcher is
  recorded as an \<open>effect\<close>.
\<close>

datatype RedisReply = RedisNil | RedisError error | RedisValue string


record DispatcherConfig =
  NodeID_cfg :: string
  PublishChannelPrefix :: string

record messageDispatcherImpl =
  config :: DispatcherConfig
  redisGet :: "string \<Rightarrow> RedisReply"
  redisPublish :: "string \<Rightarrow> string \<Rightarrow> error option"
  localConns :: "string \<rightharpoonup> (string \<Rightarrow> error option)"
  offlineSaver :: "(string \<Rightarrow> Message \<Rightarrow> error option) option"







section \<open>Concrete values for the examples\<close>

text \<open>
  A connection as \<open>NewConnection\<close> builds it, with an outbound queue of capacity one;
  the same connection after one item has been queued; and after \<open>Close\<close>.
\<close>

definition sampleWs :: WsConn where
  "sampleWs = \<lparr> wsCloseErr = None, wsCloses = 0 \<rparr>"

definition openConn :: Connection where
  "openConn = NewConnection 1000 1000 ''conn-1'' ''alice'' ''node1'' sampleWs (Some 1)"

definition fullConn :: Connection where
  "fullConn = snd (SendMessage openConn ''m0'')"

definition closedConn :: Connection where
  "closedConn = snd (Close openConn)"

text \<open>
  A deduper of capacity one that has seen one message id at second 100.
\<close>

definition fullDeduper :: MessageDeduper where
  "fullDeduper = snd (IsDuplicate 100 100 (NewMessageDeduper 1) ''msg-a'')"

text \<open>
  A handler as \<open>NewWebSocketHandler\<close> builds it (deduper of capacity 10000, no
  extension hook), with a saver and a dispatcher that succeed; a clock and id
  generator; and a serialiser.
\<close>

definition sampleMarshal :: "Message \<Rightarrow> string option" where
  "sampleMarshal m = Some (''json:'' @ MessageID m)"

definition sampleHandler :: WebSocketHandler where
  "sampleHandler =
     \<lparr> deduper = NewMessageDeduper 10000,
       messageSaver = Some (\<lambda>m. None),
       dispatchToUsers = (\<lambda>us m. None),
       dispatchToConversation = (\<lambda>cid m ex. None),
       onMessage = None \<rparr>"

definition sampleReads :: Reads where
  "sampleReads =
     \<lparr> nowMilli = 5000, newMessageID = ''msg_5_ab'', evictNow = 5, seenNow = 5,
       replyNow1 = 5001, replyNow2 = 5002 \<rparr>"

text \<open>
  A read receipt sent by alice for her conversation with bob, the conversation id
  being the one \<open>GetSingleChatConversationID\<close> gives for the two.
\<close>

definition receiptFrame :: Message where
  "receiptFrame =
     zeroMessage\<lparr> MessageID := ''rr-1'', Type := MsgReadReceipt,
       Content := MapContent
         [(''conversation_id'', JString (GetSingleChatConversationID ''alice'' ''bob'')),
          (''last_read_seq'', JNumber 5)] \<rparr>"

text \<open>
  A single-chat frame to bob in which the client names another sender and its own
  timestamp; the same frame without a message id; a heartbeat frame.
\<close>

definition chatFrame :: Message where
  "chatFrame =
     zeroMessage\<lparr> MessageID := ''m-1'', Type := MsgSingleChat, From := ''mallory'',
       To := ''bob'', Content := OtherContent ''hi'', Timestamp := 1 \<rparr>"

definition heartbeatFrame :: Message where
  "heartbeatFrame = zeroMessage\<lparr> MessageID := ''hb-1'', Type := MsgHeartbeat \<rparr>"

text \<open>The message a recorded call carries, and the counts of calls by kind.\<close>

fun callMessage :: "call \<Rightarrow> Message" where
  "callMessage (SaveMessageCall m) = m"
| "callMessage (DispatchToUsersCall us m) = m"
| "callMessage (DispatchToConversationCall cid m ex) = m"
| "callMessage (OnMessageCall m) = m"

fun isPersist :: "call \<Rightarrow> bool" where
  "isPersist (SaveMessageCall m) = True"
| "isPersist other = False"

fun isDispatch :: "call \<Rightarrow> bool" where
  "isDispatch (DispatchToUsersCall us m) = True"
| "isDispatch (DispatchToConversationCall cid m ex) = True"
| "isDispatch other = False"

definition persistCount :: "call list \<Rightarrow> nat" where
  "persistCount cs = length (filter isPersist cs)"

definition dispatchCount :: "call list \<Rightarrow> nat" where
  "dispatchCount cs = length (filter isDispatch cs)"

text \<open>
  Two frames with the same message id handled one after the other on the same
  connection: the heartbeat frame twice, and the chat frame twice.
\<close>

definition heartbeatFirst :: "error option \<times> WebSocketHandler \<times> Connection \<times> call list" where
  "heartbeatFirst = handleMessage sampleMarshal sampleReads sampleHandler openConn heartbeatFrame"

definition heartbeatSecond :: "error option \<times> WebSocketHandler \<times> Connection \<times> call list" where
  "heartbeatSecond =
     handleMessage sampleMarshal sampleReads (fst (snd heartbeatFirst))
       (fst (snd (snd heartbeatFirst))) heartbeatFrame"

definition chatFirst :: "error option \<times> WebSocketHandler \<times> Connection \<times> call list" where
  "chatFirst = handleMessage sampleMarshal sampleReads sampleHandler openConn chatFrame"

definition chatSecond :: "error option \<times> WebSocketHandler \<times> Connection \<times> call list" where
  "chatSecond =
     handleMessage sampleMarshal sampleReads (fst (snd chatFirst))
       (fst (snd (snd chatFirst))) chatFrame"





text \<open>
  Two connections of the user alice at the pointers 11 and 12, the second from the
  device \<open>phone\<close>. The first is registered with a fresh manager. In \<open>busyHeap\<close> one
  item has then been queued on the first connection, which fills its queue of
  capacity one. The second connection is registered after that (\<open>afterSecond\<close>),
  or at once (\<open>afterSecondIdle\<close>).
\<close>

definition connB :: Connection where
  "connB =
     SetDeviceID (NewConnection 2000 2000 ''conn-2'' ''alice'' ''node1'' sampleWs (Some 1))
       ''phone''"

definition sampleHeap :: heap where
  "sampleHeap = (\<lambda>p. if p = 11 then openConn else connB)"

definition afterFirst :: "ConnectionManager \<times> heap" where
  "afterFirst = Register sampleMarshal 1000 (NewConnectionManager ''node1'', sampleHeap) 11"

definition busyHeap :: heap where
  "busyHeap = (snd afterFirst)(11 := snd (SendMessage (snd afterFirst 11) ''m0''))"

definition afterSecond :: "ConnectionManager \<times> heap" where
  "afterSecond = Register sampleMarshal 2000 (fst afterFirst, busyHeap) 12"

definition afterSecondIdle :: "ConnectionManager \<times> heap" where
  "afterSecondIdle = Register sampleMarshal 2000 (fst afterFirst, snd afterFirst) 12"

section \<open>Properties of the conversation identity\<close>

lemma strLess_asym: "strLess a b \<Longrightarrow> \<not> strLess b a"
  by (induction a b rule: strLess.induct) auto

lemma strLess_total: "\<not> strLess a b \<Longrightarrow> \<not> strLess b a \<Longrightarrow> a = b"
  by (induction a b rule: strLess.induct) auto

text \<open>
  Claim C9. The single-chat conversation identity is symmetric: for every pair of
  user ids \<open>a\<close> and \<open>b\<close>, encoding \<open>(a, b)\<close> gives the same string as encoding
  \<open>(b, a)\<close>.
\<close>

theorem GetSingleChatConversationID_symmetric:
  "GetSingleChatConversationID a b = GetSingleChatConversationID b a"
proof -
  consider (lt) "strLess a b" | (gt) "strLess b a" | (eq) "a = b"
    using strLess_total by blast
  then show ?thesis
  proof cases
    case lt
    then have "\<not> strLess b a" by (rule strLess_asym)
    with lt show ?thesis by (simp add: GetSingleChatConversationID_def)
  next
    case gt
    then have "\<not> strLess a b" by (rule strLess_asym)
    with gt show ?thesis by (simp add: GetSingleChatConversationID_def)
  next
    case eq
    then show ?thesis by simp
  qed
qed

section \<open>Properties of a connection\<close>

lemma closedConn_closed: "closed closedConn"
  by (simp add: closedConn_def openConn_def NewConnection_def Close_def)

lemma fullConn_full: "\<not> closed fullConn \<and> sendCap fullConn \<le> length (Send fullConn)"
  by (simp add: fullConn_def openConn_def NewConnection_def SendMessage_def)

lemma openConn_open: "\<not> closed openConn \<and> length (Send openConn) < sendCap openConn"
  by (simp add: openConn_def NewConnection_def)

lemma Close_closed: "closed (snd (Close c))"
  by (simp add: Close_def)

lemma Close_when_closed: "closed c \<Longrightarrow> Close c = (None, c)"
  by (simp add: Close_def)

lemma Close_again_pow: "closed c \<Longrightarrow> ((\<lambda>x. snd (Close x)) ^^ n) c = c"
  by (induction n) (simp_all add: Close_when_closed)

text \<open>
  Claim C6. \<open>SendMessage\<close> on a closed connection fails with \<open>ErrConnectionClosed\<close>;
  on an open connection whose outbound queue is full it fails with
  \<open>ErrSendBufferFull\<close> and the connection, its queue included, is as before; on an
  open connection with room the item goes to the end of the queue. These three cases
  cover every connection, so the call returns in each of them (it never waits for
  room): its result is nil or one of the two errors.
\<close>

theorem SendMessage_closed_full:
  "(closed c \<longrightarrow> SendMessage c data = (Some ErrConnectionClosed, c)) \<and>
   (\<not> closed c \<and> sendCap c \<le> length (Send c) \<longrightarrow>
      SendMessage c data = (Some ErrSendBufferFull, c)) \<and>
   (\<not> closed c \<and> length (Send c) < sendCap c \<longrightarrow>
      SendMessage c data = (None, c\<lparr> Send := Send c @ [data] \<rparr>)) \<and>
   fst (SendMessage c data) \<in> {None, Some ErrConnectionClosed, Some ErrSendBufferFull}"
  by (simp add: SendMessage_def)

theorem SendMessage_closed_full_witness:
  "closed closedConn \<and> \<not> closed fullConn \<and> sendCap fullConn \<le> length (Send fullConn) \<and>
   \<not> closed openConn \<and> length (Send openConn) < sendCap openConn \<and>
   SendMessage closedConn ''m1'' = (Some ErrConnectionClosed, closedConn) \<and>
   SendMessage fullConn ''m1'' = (Some ErrSendBufferFull, fullConn) \<and>
   Send fullConn = [''m0''] \<and>
   SendMessage openConn ''m1'' = (None, openConn\<lparr> Send := [''m1''] \<rparr>)"
  using SendMessage_closed_full [of closedConn "''m1''"]
        SendMessage_closed_full [of fullConn "''m1''"]
        SendMessage_closed_full [of openConn "''m1''"]
        closedConn_closed fullConn_full openConn_open
  by (simp add: fullConn_def openConn_def NewConnection_def SendMessage_def)

text \<open>
  Claim C7. \<open>Close\<close> is idempotent. On a connection that is not yet closed, the call
  returns what the transport's close returns and makes the one transition: the closed
  flag is set, the state becomes \<open>StateClosed\<close>, and the done channel, the outbound
  queue and the transport are each closed once. After any first \<open>Close\<close> the
  connection is closed, and however many further calls follow (\<open>n\<close> of them, then
  one more), each returns nil and the connection stays exactly as the first call
  left it.
\<close>

theorem Close_idempotent:
  "(\<not> closed c \<longrightarrow>
      fst (Close c) = wsCloseErr (Conn c) \<and>
      snd (Close c) =
        c\<lparr> closed := True, State := StateClosed, doneCloses := doneCloses c + 1,
           sendCloses := sendCloses c + 1,
           Conn := (Conn c)\<lparr> wsCloses := wsCloses (Conn c) + 1 \<rparr> \<rparr>) \<and>
   closed (snd (Close c)) \<and>
   ((\<lambda>x. snd (Close x)) ^^ n) (snd (Close c)) = snd (Close c) \<and>
   Close (((\<lambda>x. snd (Close x)) ^^ n) (snd (Close c))) = (None, snd (Close c))"
proof -
  have first: "\<not> closed c \<longrightarrow>
      fst (Close c) = wsCloseErr (Conn c) \<and>
      snd (Close c) =
        c\<lparr> closed := True, State := StateClosed, doneCloses := doneCloses c + 1,
           sendCloses := sendCloses c + 1,
           Conn := (Conn c)\<lparr> wsCloses := wsCloses (Conn c) + 1 \<rparr> \<rparr>"
    by (simp add: Close_def)
  have cl: "closed (snd (Close c))" by (rule Close_closed)
  have again: "((\<lambda>x. snd (Close x)) ^^ n) (snd (Close c)) = snd (Close c)"
    using cl by (rule Close_again_pow)
  have "Close (snd (Close c)) = (None, snd (Close c))"
    using cl by (rule Close_when_closed)
  with first cl again show ?thesis by simp
qed

theorem Close_idempotent_witness:
  "\<not> closed openConn \<and>
   State (snd (Close openConn)) = StateClosed \<and>
   wsCloses (Conn (snd (Close openConn))) = 1 \<and>
   sendCloses (snd (Close openConn)) = 1 \<and>
   Close (snd (Close (snd (Close (snd (Close openConn)))))) = (None, snd (Close openConn)) \<and>
   wsCloses (Conn (snd (Close (snd (Close (snd (Close openConn))))))) = 1"
  using Close_idempotent [of openConn 2] openConn_open
  by (simp add: openConn_def NewConnection_def sampleWs_def Close_def numeral_2_eq_2)

text \<open>
  Claim C4, as stated, fails: \<open>UpdateLastActive\<close>, \<open>SetPlatform\<close> and \<open>SetDeviceID\<close>
  do not look at the closed flag, and each changes a closed connection.
\<close>

theorem closed_connection_still_mutable:
  "closed closedConn \<and>
   UpdateLastActive 2000 closedConn \<noteq> closedConn \<and>
   SetPlatform closedConn ''web'' \<noteq> closedConn \<and>
   SetDeviceID closedConn ''dev-9'' \<noteq> closedConn"
proof -
  have "LastActive (UpdateLastActive 2000 closedConn) \<noteq> LastActive closedConn"
    by (simp add: UpdateLastActive_def closedConn_def openConn_def NewConnection_def Close_def)
  moreover have "Platform (SetPlatform closedConn ''web'') \<noteq> Platform closedConn"
    by (simp add: SetPlatform_def closedConn_def openConn_def NewConnection_def Close_def)
  moreover have "DeviceID (SetDeviceID closedConn ''dev-9'') \<noteq> DeviceID closedConn"
    by (simp add: SetDeviceID_def closedConn_def openConn_def NewConnection_def Close_def)
  ultimately show ?thesis using closedConn_closed by metis
qed

text \<open>
  Claim C4, amended. Once a connection is closed, \<open>SendMessage\<close> returns
  \<open>ErrConnectionClosed\<close> and \<open>Close\<close> returns nil, and both leave the connection
  unchanged. \<open>UpdateLastActive\<close>, \<open>SetPlatform\<close> and \<open>SetDeviceID\<close> still overwrite
  the last-activity time, the platform tag and the device tag of a closed connection,
  and nothing else: the closed flag, the lifecycle state, the outbound queue, the
  transport and the close counts stay as they are.
\<close>

theorem closed_connection_frozen_part:
  assumes "closed c"
  shows "SendMessage c data = (Some ErrConnectionClosed, c) \<and>
         Close c = (None, c) \<and>
         UpdateLastActive now c = c\<lparr> LastActive := now \<rparr> \<and>
         SetPlatform c platform = c\<lparr> Platform := platform \<rparr> \<and>
         SetDeviceID c deviceID = c\<lparr> DeviceID := deviceID \<rparr> \<and>
         (\<forall>c' \<in> {UpdateLastActive now c, SetPlatform c platform, SetDeviceID c deviceID}.
            closed c' \<and> State c' = State c \<and> Send c' = Send c \<and> Conn c' = Conn c \<and>
            sendCloses c' = sendCloses c \<and> doneCloses c' = doneCloses c)"
  using assms
  by (simp add: SendMessage_def Close_def UpdateLastActive_def SetPlatform_def SetDeviceID_def)

theorem closed_connection_frozen_part_witness:
  "closed closedConn \<and>
   SendMessage closedConn ''m1'' = (Some ErrConnectionClosed, closedConn) \<and>
   Close closedConn = (None, closedConn) \<and>
   Send (UpdateLastActive 2000 closedConn) = [] \<and>
   State (SetPlatform closedConn ''web'') = StateClosed"
  using closed_connection_frozen_part [OF closedConn_closed, of "''m1''" 2000 "''web''" "''dev-9''"]
  by (simp add: closedConn_def openConn_def NewConnection_def Close_def)

section \<open>Properties of the deduper\<close>

lemma update_absent_append: "map_of al k = None \<Longrightarrow> AList.update k v al = al @ [(k, v)]"
  by (induction al) (auto split: if_splits)

lemma map_of_update_same: "map_of (AList.update k v al) k = Some v"
  by (simp add: update_conv')

lemma scanOldest_none_older:
  "\<forall>kv \<in> set kvs. fst acc \<le> snd kv \<Longrightarrow> scanOldest kvs acc = acc"
  by (induction kvs acc rule: scanOldest.induct) auto

text \<open>
  \<open>evictOldest\<close> starts its search at the current second and looks for a strictly
  smaller first-seen time, so it removes nothing when no entry is older than the
  current second.
\<close>

lemma evictOldest_same_second:
  "\<forall>kv \<in> set (cache d). now \<le> snd kv \<Longrightarrow> evictOldest now d = d"
  by (simp add: evictOldest_def scanOldest_none_older)

lemma IsDuplicate_grows_past_capacity:
  assumes "map_of (cache d) messageID = None"
    and "\<forall>kv \<in> set (cache d). te \<le> snd kv"
  shows "cache (snd (IsDuplicate te ts d messageID)) = cache d @ [(messageID, ts)]"
  using assms by (simp add: IsDuplicate_def evictOldest_same_second update_absent_append)

lemma scanOldest_le:
  "fst (scanOldest kvs acc) \<le> fst acc \<and> (\<forall>kv \<in> set kvs. fst (scanOldest kvs acc) \<le> snd kv)"
  by (induction kvs acc rule: scanOldest.induct) (auto split: if_splits)

lemma scanOldest_mem:
  "scanOldest kvs acc = acc \<or> (snd (scanOldest kvs acc), fst (scanOldest kvs acc)) \<in> set kvs"
  by (induction kvs acc rule: scanOldest.induct) (auto split: if_splits)

lemma scanOldest_finds:
  assumes "\<exists>kv \<in> set kvs. snd kv < now"
  shows "(snd (scanOldest kvs (now, k0)), fst (scanOldest kvs (now, k0))) \<in> set kvs"
proof -
  from assms obtain kv where kv: "kv \<in> set kvs" "snd kv < now" by blast
  from scanOldest_le [of kvs "(now, k0)"] kv have "fst (scanOldest kvs (now, k0)) < now"
    by fastforce
  then have "scanOldest kvs (now, k0) \<noteq> (now, k0)" by auto
  with scanOldest_mem [of kvs "(now, k0)"] show ?thesis by blast
qed

lemma length_delete_present:
  assumes "distinct (map fst al)" and "k \<in> fst ` set al"
  shows "Suc (length (AList.delete k al)) = length al"
  using assms
proof (induction al)
  case Nil
  then show ?case by simp
next
  case (Cons p al)
  show ?case
  proof (cases "fst p = k")
    case True
    with Cons.prems have "k \<notin> fst ` set al" by auto
    with True show ?thesis by simp
  next
    case False
    with Cons show ?thesis by auto
  qed
qed

text \<open>
  The eviction does what its name says when some cached id was first seen before
  the current second (and the cache, as a Go map, has one entry per key, none under the
  empty id): exactly one entry is removed, and no entry is older than it. A cache
  that is within its capacity then stays within it under \<open>IsDuplicate\<close>.
\<close>

lemma evictOldest_removes_oldest:
  assumes dist: "distinct (map fst (cache d))"
    and nonempty: "[] \<notin> fst ` set (cache d)"
    and older: "\<exists>kv \<in> set (cache d). snd kv < now"
  shows "\<exists>k v. (k, v) \<in> set (cache d) \<and> (\<forall>kv \<in> set (cache d). v \<le> snd kv) \<and>
           cache (evictOldest now d) = AList.delete k (cache d) \<and>
           Suc (length (cache (evictOldest now d))) = length (cache d)"
proof -
  let ?r = "scanOldest (cache d) (now, [])"
  have mem: "(snd ?r, fst ?r) \<in> set (cache d)" using older by (rule scanOldest_finds)
  then have key: "snd ?r \<in> fst ` set (cache d)" by force
  with nonempty have ne: "snd ?r \<noteq> []" by metis
  have min: "\<forall>kv \<in> set (cache d). fst ?r \<le> snd kv"
    using scanOldest_le [of "cache d" "(now, [])"] by simp
  have ev: "cache (evictOldest now d) = AList.delete (snd ?r) (cache d)"
    using ne by (simp add: evictOldest_def Let_def)
  have "Suc (length (cache (evictOldest now d))) = length (cache d)"
    unfolding ev using dist key by (rule length_delete_present)
  with mem min ev show ?thesis by blast
qed

lemma IsDuplicate_within_capacity:
  assumes dist: "distinct (map fst (cache d))"
    and nonempty: "[] \<notin> fst ` set (cache d)"
    and older: "\<exists>kv \<in> set (cache d). snd kv < te"
    and bound: "int (length (cache d)) \<le> size_d d"
  shows "int (length (cache (snd (IsDuplicate te ts d messageID)))) \<le> size_d d"
proof (cases "map_of (cache d) messageID = None")
  case False
  then show ?thesis using bound by (simp add: IsDuplicate_def)
next
  case absent: True
  show ?thesis
  proof (cases "size_d d \<le> int (length (cache d))")
    case True
    from evictOldest_removes_oldest [OF dist nonempty older]
    obtain k where ev: "cache (evictOldest te d) = AList.delete k (cache d)"
      and len: "Suc (length (cache (evictOldest te d))) = length (cache d)" by blast
    have "map_of (cache (evictOldest te d)) messageID = None"
      unfolding ev using absent by (simp add: delete_conv')
    then have "cache (snd (IsDuplicate te ts d messageID)) =
        cache (evictOldest te d) @ [(messageID, ts)]"
      using absent True by (simp add: IsDuplicate_def Let_def update_absent_append)
    then have "length (cache (snd (IsDuplicate te ts d messageID))) = length (cache d)"
      using len by simp
    moreover have "size_d (snd (IsDuplicate te ts d messageID)) = size_d d"
      by (simp add: IsDuplicate_def Let_def evictOldest_def)
    ultimately show ?thesis using bound by simp
  next
    case False
    then show ?thesis using absent
      by (simp add: IsDuplicate_def Let_def update_absent_append)
  qed
qed

text \<open>
  Claim C8 says that an insertion into a full cache first evicts an entry with the
  oldest first-seen time, so that the cache never holds more than its capacity. The
  code does not do so when the cached ids were all first seen in the current second:
  a deduper of capacity 1 that holds \<open>msg-a\<close>, first seen at second 100, is asked
  about \<open>msg-b\<close> in the same second; nothing is evicted and the cache then holds two
  entries.
\<close>

theorem IsDuplicate_exceeds_capacity:
  "size_d fullDeduper = 1 \<and> cache fullDeduper = [(''msg-a'', 100)] \<and>
   IsDuplicate 100 100 fullDeduper ''msg-b'' =
     (False, \<lparr> cache = [(''msg-a'', 100), (''msg-b'', 100)], size_d = 1 \<rparr>) \<and>
   size_d fullDeduper < int (length (cache (snd (IsDuplicate 100 100 fullDeduper ''msg-b''))))"
  by (simp add: fullDeduper_def NewMessageDeduper_def IsDuplicate_def evictOldest_def)

section \<open>Properties of the protocol handler\<close>

lemma encoder_not_underscore_prefix:
  "\<not> HasPrefix (GetSingleChatConversationID a b) ''single_''"
  by (simp add: GetSingleChatConversationID_def)

text \<open>
  The read-receipt handler forwards only for a conversation id that starts with
  \<open>single_\<close>; the encoder writes \<open>single:\<close>. So no receipt whose conversation id
  comes from the encoder is forwarded, whoever the two users are.
\<close>

lemma handleReadReceipt_encoder_never_forwards:
  assumes "receiptConversationID (Content msg) = Some (GetSingleChatConversationID a b)"
  shows "handleReadReceipt h conn msg = (None, conn, [])"
  using assms by (simp add: handleReadReceipt_def encoder_not_underscore_prefix)

text \<open>
  For the underscore form \<open>single_alice_bob\<close>, which \<open>util.GenerateConversationID\<close>
  writes, the same handler does forward alice's receipt to bob. That holds for user
  ids without an underscore: the handler splits at the last underscore, so for the
  ids \<open>user_a\<close> and \<open>user_b\<close> (the shape \<open>util.GenerateUserID\<close> gives) it
  takes \<open>user_a_user\<close> and \<open>b\<close> for the two parties.
\<close>

lemma handleReadReceipt_underscore_form:
  "handleReadReceipt sampleHandler openConn
     (receiptFrame\<lparr> Content := ReadReceiptContent ''single_alice_bob'' 5 \<rparr>) =
   (None, openConn,
    [DispatchToUsersCall [''bob'']
       (receiptFrame\<lparr> Content := ReadReceiptContent ''single_alice_bob'' 5 \<rparr>)])"
  by (simp add: handleReadReceipt_def sampleHandler_def openConn_def NewConnection_def)

lemma handleReadReceipt_underscore_in_user_id:
  "handleReadReceipt sampleHandler (openConn\<lparr> UserID := ''user_a'' \<rparr>)
     (receiptFrame\<lparr> Content := ReadReceiptContent ''single_user_a_user_b'' 5 \<rparr>) =
   (None, openConn\<lparr> UserID := ''user_a'' \<rparr>,
    [DispatchToUsersCall [''user_a_user'']
       (receiptFrame\<lparr> Content := ReadReceiptContent ''single_user_a_user_b'' 5 \<rparr>)])"
  by (simp add: handleReadReceipt_def sampleHandler_def)

text \<open>
  Claim C3 says that a read receipt whose conversation id was made by the single-chat
  encoder is forwarded to the other party. The code does not forward it: alice's
  receipt for the conversation \<open>GetSingleChatConversationID alice bob\<close>, that is
  \<open>single:alice:bob\<close>, makes no call on the dispatcher, neither in
  \<open>handleReadReceipt\<close> nor through \<open>handleMessage\<close>.
\<close>

theorem handleReadReceipt_drops_encoded_receipt:
  "receiptConversationID (Content receiptFrame) = Some ''single:alice:bob'' \<and>
   handleReadReceipt sampleHandler openConn receiptFrame = (None, openConn, []) \<and>
   snd (snd (snd (handleMessage sampleMarshal sampleReads sampleHandler openConn receiptFrame))) = []"
  by (simp add: receiptFrame_def zeroMessage_def getString_def GetSingleChatConversationID_def
      handleReadReceipt_def handleMessage_def stampMessage_def handleByType_def
      IsDuplicate_def sampleHandler_def NewMessageDeduper_def Let_def)

lemma IsDuplicate_caches_id:
  "map_of (cache (snd (IsDuplicate te ts d messageID))) messageID \<noteq> None"
  by (auto simp add: IsDuplicate_def Let_def map_of_update_same)

lemma stampMessage_fields:
  "From (stampMessage r conn msg) = UserID conn \<and>
   Timestamp (stampMessage r conn msg) = nowMilli r \<and>
   MessageID (stampMessage r conn msg) =
     (if MessageID msg = [] then newMessageID r else MessageID msg)"
  by (simp add: stampMessage_def Let_def)

lemma handleByType_calls_carry:
  assumes "c \<in> set (snd (snd (handleByType marshal r h conn msg)))"
  shows "From (callMessage c) = From msg \<and> Timestamp (callMessage c) = Timestamp msg \<and>
         MessageID (callMessage c) = MessageID msg"
  using assms
  by (auto simp add: handleByType_def handleHeartbeat_def handleSingleChat_def
      handleGroupChat_def handleAck_def handleReadReceipt_def handleTyping_def
      callsOfSave_def Let_def
      split: if_splits option.splits prod.splits)

text \<open>
  Claim C10. Whatever sender and timestamp a frame carries, \<open>handleMessage\<close> first
  writes the connection's user id and the server's clock reading into it, and
  generates a message id where the frame has none. The deduper is asked about the id
  of that stamped message, which is in the cache when the call is over, and every
  message handed to the saver, to the dispatcher or to the extension hook carries
  the connection's user id as sender, the server's timestamp, and that id.
\<close>

theorem handleMessage_stamps_sender_and_time:
  "From (stampMessage r conn msg) = UserID conn \<and>
   Timestamp (stampMessage r conn msg) = nowMilli r \<and>
   MessageID (stampMessage r conn msg) =
     (if MessageID msg = [] then newMessageID r else MessageID msg) \<and>
   deduper (fst (snd (handleMessage marshal r h conn msg))) =
     snd (IsDuplicate (evictNow r) (seenNow r) (deduper h) (MessageID (stampMessage r conn msg))) \<and>
   map_of (cache (deduper (fst (snd (handleMessage marshal r h conn msg)))))
     (MessageID (stampMessage r conn msg)) \<noteq> None \<and>
   (\<forall>c \<in> set (snd (snd (snd (handleMessage marshal r h conn msg)))).
      From (callMessage c) = UserID conn \<and> Timestamp (callMessage c) = nowMilli r \<and>
      MessageID (callMessage c) = MessageID (stampMessage r conn msg))"
proof -
  let ?m = "stampMessage r conn msg"
  let ?res = "handleMessage marshal r h conn msg"
  have ded: "deduper (fst (snd ?res)) =
      snd (IsDuplicate (evictNow r) (seenNow r) (deduper h) (MessageID ?m))"
    by (simp add: handleMessage_def Let_def)
  have inc: "map_of (cache (deduper (fst (snd ?res)))) (MessageID ?m) \<noteq> None"
    unfolding ded by (rule IsDuplicate_caches_id)
  have calls: "\<forall>c \<in> set (snd (snd (snd ?res))).
      From (callMessage c) = UserID conn \<and> Timestamp (callMessage c) = nowMilli r \<and>
      MessageID (callMessage c) = MessageID ?m"
  proof
    fix c assume c: "c \<in> set (snd (snd (snd ?res)))"
    show "From (callMessage c) = UserID conn \<and> Timestamp (callMessage c) = nowMilli r \<and>
      MessageID (callMessage c) = MessageID ?m"
    proof (cases "fst (IsDuplicate (evictNow r) (seenNow r) (deduper h) (MessageID ?m))")
      case True
      with c show ?thesis by (simp add: handleMessage_def Let_def)
    next
      case False
      with c have "c \<in> set (snd (snd (handleByType marshal r
          (h\<lparr> deduper := snd (IsDuplicate (evictNow r) (seenNow r) (deduper h) (MessageID ?m)) \<rparr>)
          conn ?m)))"
        by (simp add: handleMessage_def Let_def)
      from handleByType_calls_carry [OF this] show ?thesis
        by (simp add: stampMessage_fields)
    qed
  qed
  from stampMessage_fields [of r conn msg] ded inc calls show ?thesis by simp
qed


lemma chatFrame_noid_calls:
  "snd (snd (snd (handleMessage sampleMarshal sampleReads sampleHandler openConn
       (chatFrame\<lparr> MessageID := [] \<rparr>)))) =
     [SaveMessageCall (chatFrame\<lparr> MessageID := ''msg_5_ab'', From := ''alice'',
                         Timestamp := 5000, ConversationID := ''single:alice:bob'' \<rparr>),
      DispatchToUsersCall [''bob'']
        (chatFrame\<lparr> MessageID := ''msg_5_ab'', From := ''alice'',
                     Timestamp := 5000, ConversationID := ''single:alice:bob'' \<rparr>)]"
  by (simp add: handleMessage_def stampMessage_def IsDuplicate_def
      handleByType_def handleSingleChat_def callsOfSave_def SendJSON_def SendMessage_def
      NewAckMessage_def zeroMessage_def GetSingleChatConversationID_def
      sampleHandler_def sampleReads_def sampleMarshal_def chatFrame_def openConn_def
      NewConnection_def NewMessageDeduper_def Let_def)

theorem handleMessage_stamps_witness:
  "From chatFrame = ''mallory'' \<and> Timestamp chatFrame = 1 \<and>
   snd (snd (snd (handleMessage sampleMarshal sampleReads sampleHandler openConn
       (chatFrame\<lparr> MessageID := [] \<rparr>)))) =
     [SaveMessageCall (chatFrame\<lparr> MessageID := ''msg_5_ab'', From := ''alice'',
                         Timestamp := 5000, ConversationID := ''single:alice:bob'' \<rparr>),
      DispatchToUsersCall [''bob'']
        (chatFrame\<lparr> MessageID := ''msg_5_ab'', From := ''alice'',
                     Timestamp := 5000, ConversationID := ''single:alice:bob'' \<rparr>)] \<and>
   From (callMessage (hd (snd (snd (snd (handleMessage sampleMarshal sampleReads sampleHandler
       openConn (chatFrame\<lparr> MessageID := [] \<rparr>))))))) = ''alice'' \<and>
   Timestamp (callMessage (hd (snd (snd (snd (handleMessage sampleMarshal sampleReads
       sampleHandler openConn (chatFrame\<lparr> MessageID := [] \<rparr>))))))) = 5000 \<and>
   MessageID (callMessage (hd (snd (snd (snd (handleMessage sampleMarshal sampleReads
       sampleHandler openConn (chatFrame\<lparr> MessageID := [] \<rparr>))))))) = ''msg_5_ab''"
proof -
  let ?calls = "snd (snd (snd (handleMessage sampleMarshal sampleReads sampleHandler openConn
       (chatFrame\<lparr> MessageID := [] \<rparr>))))"
  note main = handleMessage_stamps_sender_and_time
    [of sampleReads openConn "chatFrame\<lparr> MessageID := [] \<rparr>" sampleMarshal sampleHandler]
  have u: "UserID openConn = ''alice''" by (simp add: openConn_def NewConnection_def)
  have t: "nowMilli sampleReads = 5000" by (simp add: sampleReads_def)
  have i: "MessageID (stampMessage sampleReads openConn (chatFrame\<lparr> MessageID := [] \<rparr>)) = ''msg_5_ab''"
    by (simp add: stampMessage_def sampleReads_def Let_def)
  from main have "\<forall>c \<in> set ?calls.
      From (callMessage c) = UserID openConn \<and> Timestamp (callMessage c) = nowMilli sampleReads \<and>
      MessageID (callMessage c) =
        MessageID (stampMessage sampleReads openConn (chatFrame\<lparr> MessageID := [] \<rparr>))"
    by blast
  then have all: "\<forall>c \<in> set ?calls.
      From (callMessage c) = ''alice'' \<and> Timestamp (callMessage c) = 5000 \<and>
      MessageID (callMessage c) = ''msg_5_ab''"
    unfolding u t i .
  have ne: "?calls \<noteq> []"
    by (simp add: chatFrame_noid_calls)
  then have "hd ?calls \<in> set ?calls" by (rule hd_in_set)
  with all have first: "From (callMessage (hd ?calls)) = ''alice'' \<and>
      Timestamp (callMessage (hd ?calls)) = 5000 \<and>
      MessageID (callMessage (hd ?calls)) = ''msg_5_ab''"
    by blast
  have c: "From chatFrame = ''mallory'' \<and> Timestamp chatFrame = 1"
    by (simp add: chatFrame_def zeroMessage_def)
  from c first chatFrame_noid_calls show ?thesis by blast
qed

lemma handleMessage_duplicate:
  assumes "map_of (cache (deduper h)) (MessageID (stampMessage r conn msg)) \<noteq> None"
  shows "handleMessage marshal r h conn msg = (None, h, conn, [])"
  using assms by (simp add: handleMessage_def IsDuplicate_def Let_def)

lemma stampMessage_Type: "Type (stampMessage r conn msg) = Type msg"
  by (simp add: stampMessage_def Let_def)

lemma handleByType_chat_counts:
  assumes "Type msg \<in> {MsgText, MsgSingleChat, MsgGroupChat}" and "messageSaver h \<noteq> None"
  shows "persistCount (snd (snd (handleByType marshal r h conn msg))) = 1 \<and>
         dispatchCount (snd (snd (handleByType marshal r h conn msg))) = 1"
  using assms
  by (auto simp add: handleByType_def handleSingleChat_def handleGroupChat_def
      callsOfSave_def persistCount_def dispatchCount_def Let_def)

lemma handleMessage_fresh_chat:
  assumes fresh: "map_of (cache (deduper h)) (MessageID (stampMessage r conn msg)) = None"
    and chat: "Type msg \<in> {MsgText, MsgSingleChat, MsgGroupChat}"
    and saver: "messageSaver h \<noteq> None"
  shows "persistCount (snd (snd (snd (handleMessage marshal r h conn msg)))) = 1 \<and>
         dispatchCount (snd (snd (snd (handleMessage marshal r h conn msg)))) = 1"
proof -
  let ?m = "stampMessage r conn msg"
  let ?h1 = "h\<lparr> deduper := snd (IsDuplicate (evictNow r) (seenNow r) (deduper h) (MessageID ?m)) \<rparr>"
  have nd: "\<not> fst (IsDuplicate (evictNow r) (seenNow r) (deduper h) (MessageID ?m))"
    using fresh by (simp add: IsDuplicate_def Let_def)
  have calls: "snd (snd (snd (handleMessage marshal r h conn msg))) =
      snd (snd (handleByType marshal r ?h1 conn ?m))"
    using nd by (simp add: handleMessage_def Let_def)
  have "Type ?m \<in> {MsgText, MsgSingleChat, MsgGroupChat}"
    using chat by (simp only: stampMessage_Type)
  moreover have "messageSaver ?h1 \<noteq> None" using saver by simp
  ultimately show ?thesis
    unfolding calls by (rule handleByType_chat_counts)
qed

text \<open>
  Claim C2, amended. Let two frames carry the same message id, and let the id of the
  first still be in the deduper's cache when the second is handled. Then the second
  frame is dropped: \<open>handleMessage\<close> returns nil, makes no call on the saver or the
  dispatcher, queues nothing on the connection and leaves the handler as it is. If
  moreover the first frame is a chat frame (text, single chat or group chat), its id
  was not in the cache when it arrived, and a message saver is configured, then the
  two frames together make exactly one persistence call and exactly one dispatch.
\<close>

theorem duplicate_frame_dropped:
  assumes same: "MessageID (stampMessage r2 conn2 msgB) = MessageID (stampMessage r1 conn1 msgA)"
    and window: "map_of (cache (deduper h')) (MessageID (stampMessage r1 conn1 msgA)) \<noteq> None"
  shows "handleMessage marshal r2 h' conn2 msgB = (None, h', conn2, []) \<and>
         (map_of (cache (deduper h)) (MessageID (stampMessage r1 conn1 msgA)) = None \<and>
          Type msgA \<in> {MsgText, MsgSingleChat, MsgGroupChat} \<and> messageSaver h \<noteq> None \<longrightarrow>
            persistCount (snd (snd (snd (handleMessage marshal r1 h conn1 msgA)))
                          @ snd (snd (snd (handleMessage marshal r2 h' conn2 msgB)))) = 1 \<and>
            dispatchCount (snd (snd (snd (handleMessage marshal r1 h conn1 msgA)))
                           @ snd (snd (snd (handleMessage marshal r2 h' conn2 msgB)))) = 1)"
proof -
  have second: "handleMessage marshal r2 h' conn2 msgB = (None, h', conn2, [])"
    using window same by (simp add: handleMessage_duplicate)
  show ?thesis
    unfolding second using handleMessage_fresh_chat [of h r1 conn1 msgA marshal]
    by simp
qed

lemma chatFirst_value:
  "chatFirst =
     (None,
      sampleHandler\<lparr> deduper := \<lparr> cache = [(''m-1'', 5)], size_d = 10000 \<rparr> \<rparr>,
      openConn\<lparr> Send := [''json:''] \<rparr>,
      [SaveMessageCall (chatFrame\<lparr> From := ''alice'', Timestamp := 5000,
                          ConversationID := ''single:alice:bob'' \<rparr>),
       DispatchToUsersCall [''bob'']
         (chatFrame\<lparr> From := ''alice'', Timestamp := 5000,
                      ConversationID := ''single:alice:bob'' \<rparr>)])"
  by (simp add: chatFirst_def handleMessage_def stampMessage_def IsDuplicate_def
      handleByType_def handleSingleChat_def callsOfSave_def SendJSON_def SendMessage_def
      NewAckMessage_def zeroMessage_def GetSingleChatConversationID_def
      sampleHandler_def sampleReads_def sampleMarshal_def chatFrame_def openConn_def
      NewConnection_def NewMessageDeduper_def Let_def)


lemma heartbeatFirst_value:
  "heartbeatFirst =
     (None,
      sampleHandler\<lparr> deduper := \<lparr> cache = [(''hb-1'', 5)], size_d = 10000 \<rparr> \<rparr>,
      openConn\<lparr> Send := [''json:''] \<rparr>,
      [])"
  by (simp add: heartbeatFirst_def handleMessage_def stampMessage_def IsDuplicate_def
      handleByType_def handleHeartbeat_def SendJSON_def SendMessage_def
      NewHeartbeatMessage_def zeroMessage_def
      sampleHandler_def sampleReads_def sampleMarshal_def heartbeatFrame_def openConn_def
      NewConnection_def NewMessageDeduper_def Let_def)

text \<open>
  Claim C2, as stated, fails for frames that are not chat frames: two heartbeat
  frames with the id \<open>hb-1\<close>, the second arriving while the id is cached, lead to
  no persistence call and no dispatch at all, not to one of each.
\<close>

theorem heartbeat_pair_no_dispatch:
  "MessageID (stampMessage sampleReads openConn heartbeatFrame) = ''hb-1'' \<and>
   MessageID (stampMessage sampleReads (fst (snd (snd heartbeatFirst))) heartbeatFrame) = ''hb-1'' \<and>
   map_of (cache (deduper (fst (snd heartbeatFirst)))) ''hb-1'' = Some 5 \<and>
   persistCount (snd (snd (snd heartbeatFirst)) @ snd (snd (snd heartbeatSecond))) = 0 \<and>
   dispatchCount (snd (snd (snd heartbeatFirst)) @ snd (snd (snd heartbeatSecond))) = 0"
proof -
  have ids: "MessageID (stampMessage sampleReads c heartbeatFrame) = ''hb-1''" for c
    by (simp add: stampMessage_def heartbeatFrame_def zeroMessage_def Let_def)
  have cached: "map_of (cache (deduper (fst (snd heartbeatFirst)))) ''hb-1'' = Some 5"
    by (simp add: heartbeatFirst_value)
  have eq2: "heartbeatSecond = (None, fst (snd heartbeatFirst), fst (snd (snd heartbeatFirst)), [])"
    unfolding heartbeatSecond_def
    by (rule handleMessage_duplicate) (simp add: ids cached)
  have second: "snd (snd (snd heartbeatSecond)) = []" by (subst eq2) simp
  have first: "snd (snd (snd heartbeatFirst)) = []"
    by (simp add: heartbeatFirst_value)
  show ?thesis
    by (simp add: ids cached first second persistCount_def dispatchCount_def)
qed

theorem duplicate_frame_dropped_witness:
  "MessageID (stampMessage sampleReads (fst (snd (snd chatFirst))) chatFrame) =
     MessageID (stampMessage sampleReads openConn chatFrame) \<and>
   map_of (cache (deduper (fst (snd chatFirst)))) (MessageID (stampMessage sampleReads openConn chatFrame)) \<noteq> None \<and>
   map_of (cache (deduper sampleHandler)) (MessageID (stampMessage sampleReads openConn chatFrame)) = None \<and>
   Type chatFrame \<in> {MsgText, MsgSingleChat, MsgGroupChat} \<and> messageSaver sampleHandler \<noteq> None \<and>
   chatSecond = (None, fst (snd chatFirst), fst (snd (snd chatFirst)), []) \<and>
   persistCount (snd (snd (snd chatFirst)) @ snd (snd (snd chatSecond))) = 1 \<and>
   dispatchCount (snd (snd (snd chatFirst)) @ snd (snd (snd chatSecond))) = 1"
proof -
  have ids: "MessageID (stampMessage sampleReads c chatFrame) = ''m-1''" for c
    by (simp add: stampMessage_def chatFrame_def zeroMessage_def Let_def)
  have same: "MessageID (stampMessage sampleReads (fst (snd (snd chatFirst))) chatFrame) =
     MessageID (stampMessage sampleReads openConn chatFrame)"
    by (simp add: ids)
  have window: "map_of (cache (deduper (fst (snd chatFirst))))
      (MessageID (stampMessage sampleReads openConn chatFrame)) \<noteq> None"
    by (simp add: ids chatFirst_value)
  have fresh: "map_of (cache (deduper sampleHandler))
      (MessageID (stampMessage sampleReads openConn chatFrame)) = None"
    by (simp add: sampleHandler_def NewMessageDeduper_def)
  have chat: "Type chatFrame \<in> {MsgText, MsgSingleChat, MsgGroupChat}"
    by (simp add: chatFrame_def zeroMessage_def)
  have saver: "messageSaver sampleHandler \<noteq> None"
    by (simp add: sampleHandler_def)
  note main = duplicate_frame_dropped [OF same window, of sampleMarshal sampleHandler]
  from main have second: "chatSecond = (None, fst (snd chatFirst), fst (snd (snd chatFirst)), [])"
    unfolding chatSecond_def by (rule conjunct1)
  from main fresh chat saver
  have counts: "persistCount (snd (snd (snd chatFirst)) @ snd (snd (snd chatSecond))) = 1 \<and>
      dispatchCount (snd (snd (snd chatFirst)) @ snd (snd (snd chatSecond))) = 1"
    unfolding chatSecond_def chatFirst_def by blast
  from same window fresh chat saver second counts show ?thesis by blast
qed

section \<open>Properties of the dispatcher\<close>










section \<open>Properties of the connection manager\<close>

lemma filter_key_delete: "filter (\<lambda>p. fst p = k) (AList.delete k al) = []"
  by (induction al) auto

lemma map_of_delete_same: "map_of (AList.delete k al) k = None"
  by (simp add: delete_conv')

lemma filter_key_update_delete:
  "filter (\<lambda>p. fst p = k) (AList.update k v (AList.delete k al)) = [(k, v)]"
  by (simp add: update_absent_append [OF map_of_delete_same] filter_key_delete)

lemma SendJSON_keeps:
  "ID (snd (SendJSON marshal c v)) = ID c \<and> UserID (snd (SendJSON marshal c v)) = UserID c \<and>
   closed (snd (SendJSON marshal c v)) = closed c"
  by (simp add: SendJSON_def SendMessage_def split: option.splits)

lemma Close_keeps:
  "ID (snd (Close c)) = ID c \<and> UserID (snd (Close c)) = UserID c \<and> Send (snd (Close c)) = Send c"
  by (simp add: Close_def)

lemma SendJSON_enqueues:
  assumes "\<not> closed c" and "length (Send c) < sendCap c" and "marshal v = Some data"
  shows "Send (snd (SendJSON marshal c v)) = Send c @ [data]"
  using assms by (simp add: SendJSON_def SendMessage_def)

lemma Register_stores:
  "map_of (connections (fst (Register marshal now (m, h) conn))) (UserID (h conn)) = Some conn"
proof -
  have heap_conn: "UserID (snd (evictOld marshal now (m, h) conn) conn) = UserID (h conn)"
    by (simp add: evictOld_def Let_def SendJSON_keeps Close_keeps split: option.splits)
  obtain me he where ev: "evictOld marshal now (m, h) conn = (me, he)"
    by (cases "evictOld marshal now (m, h) conn")
  with heap_conn have "UserID (he conn) = UserID (h conn)" by simp
  then show ?thesis
    by (simp add: Register_def ev storeNew_def Let_def map_of_update_same)
qed

lemma evictOld_found:
  assumes "map_of (connections m) (UserID (h conn)) = Some old"
  shows "evictOld marshal now (m, h) conn =
           (m\<lparr> connections := AList.delete (UserID (h conn)) (connections m),
               connByID := AList.delete (ID (h old)) (connByID m) \<rparr>,
            h(old := snd (Close (snd (SendJSON marshal (h old) (kickMsg now (DeviceID (h conn))))))))"
  using assms by (simp add: evictOld_def Let_def SendJSON_keeps Close_keeps)

text \<open>
  Claim C1, amended. Let \<open>c1\<close> and \<open>c2\<close> be two connections of the same user
  \<open>u\<close>, registered one after the other; \<open>h'\<close> is the heap when the second is
  registered (the connections may have sent and received in between, the registry is
  as the first \<open>Register\<close> left it). After the first call \<open>c1\<close> is the stored
  connection of \<open>u\<close>. The second call first kicks \<open>c1\<close> out: it applies \<open>SendJSON\<close>
  with the kick-out notice (naming the new connection's device) and then \<open>Close\<close>
  to \<open>c1\<close>, and deletes \<open>c1\<close> from both registry maps; at that point \<open>u\<close> has no
  stored connection and \<open>c1\<close> is closed. The notice is the last item of the queue
  of \<open>c1\<close> provided \<open>c1\<close> was open, its queue had room and the notice serialises;
  otherwise the send fails and the notice is not queued. Only then is \<open>c2\<close>, itself
  untouched, stored: afterwards the registry holds exactly one entry for \<open>u\<close>,
  which is \<open>c2\<close>, the lookup by the id of \<open>c2\<close> gives \<open>c2\<close>, and the id of \<open>c1\<close>
  (when different) is no longer known.
\<close>

theorem Register_supersedes:
  assumes u1: "UserID (h c1) = u" and u2: "UserID (h' c2) = u" and ne: "c1 \<noteq> c2"
    and r1: "Register marshal t1 (m, h) c1 = (m1, h1)"
    and ev: "evictOld marshal t2 (m1, h') c2 = (me, he)"
    and r2: "Register marshal t2 (m1, h') c2 = (m2, h2)"
  shows "GetConnection m1 u = Some c1 \<and>
         GetConnection me u = None \<and>
         GetConnectionByID me (ID (h' c1)) = None \<and>
         he c1 = snd (Close (snd (SendJSON marshal (h' c1) (kickMsg t2 (DeviceID (h' c2)))))) \<and>
         closed (he c1) \<and>
         (\<not> closed (h' c1) \<and> length (Send (h' c1)) < sendCap (h' c1) \<and>
          marshal (kickMsg t2 (DeviceID (h' c2))) = Some data \<longrightarrow>
            Send (he c1) = Send (h' c1) @ [data]) \<and>
         (m2, h2) = storeNew (me, he) c2 \<and>
         h2 = he \<and> h2 c2 = h' c2 \<and>
         filter (\<lambda>p. fst p = u) (connections m2) = [(u, c2)] \<and>
         GetConnection m2 u = Some c2 \<and>
         GetConnectionByID m2 (ID (h' c2)) = Some c2 \<and>
         (ID (h' c1) \<noteq> ID (h' c2) \<longrightarrow> GetConnectionByID m2 (ID (h' c1)) = None)"
proof -
  let ?kick = "kickMsg t2 (DeviceID (h' c2))"
  let ?old = "snd (Close (snd (SendJSON marshal (h' c1) ?kick)))"
  have stored: "map_of (connections m1) u = Some c1"
    using Register_stores [of marshal t1 m h c1] r1 u1 by simp
  have found: "map_of (connections m1) (UserID (h' c2)) = Some c1"
    using stored u2 by simp
  have me: "me = m1\<lparr> connections := AList.delete u (connections m1),
                     connByID := AList.delete (ID (h' c1)) (connByID m1) \<rparr>"
    and he: "he = h'(c1 := ?old)"
    using evictOld_found [where m = m1 and h = h' and conn = c2 and old = c1
        and marshal = marshal and now = t2, OF found] ev u2 by simp_all
  have he1: "he c1 = ?old" by (simp add: he)
  have he2: "he c2 = h' c2" using ne by (simp add: he)
  have gone: "GetConnection me u = None"
    by (simp add: GetConnection_def me map_of_delete_same)
  have gone_id: "GetConnectionByID me (ID (h' c1)) = None"
    by (simp add: GetConnectionByID_def me map_of_delete_same)
  have cl: "closed (he c1)" unfolding he1 by (rule Close_closed)
  have enq: "\<not> closed (h' c1) \<and> length (Send (h' c1)) < sendCap (h' c1) \<and>
          marshal ?kick = Some data \<longrightarrow> Send (he c1) = Send (h' c1) @ [data]"
    unfolding he1 by (simp add: Close_keeps SendJSON_enqueues)
  have reg: "(m2, h2) = storeNew (me, he) c2"
    using r2 ev by (simp add: Register_def)
  have h2: "h2 = he" using reg by (simp add: storeNew_def Let_def)
  have conns2: "connections m2 = AList.update u c2 (AList.delete u (connections m1))"
    using reg he2 u2 by (simp add: storeNew_def Let_def me)
  have byid2: "connByID m2 = AList.update (ID (h' c2)) c2 (AList.delete (ID (h' c1)) (connByID m1))"
    using reg he2 by (simp add: storeNew_def Let_def me)
  have one: "filter (\<lambda>p. fst p = u) (connections m2) = [(u, c2)]"
    unfolding conns2 by (rule filter_key_update_delete)
  have get2: "GetConnection m2 u = Some c2"
    by (simp add: GetConnection_def conns2 map_of_update_same)
  have getid2: "GetConnectionByID m2 (ID (h' c2)) = Some c2"
    by (simp add: GetConnectionByID_def byid2 map_of_update_same)
  have oldid: "ID (h' c1) \<noteq> ID (h' c2) \<longrightarrow> GetConnectionByID m2 (ID (h' c1)) = None"
    by (simp add: GetConnectionByID_def byid2 update_conv' map_of_delete_same)
  have first: "GetConnection m1 u = Some c1"
    using stored by (simp add: GetConnection_def)
  from first gone gone_id he1 cl enq reg h2 he2 one get2 getid2 oldid
  show ?thesis by simp
qed


lemma afterFirst_value:
  "afterFirst =
     (\<lparr> connections = [(''alice'', 11)], connByID = [(''conn-1'', 11)], nodeID = ''node1'',
        totalConnections = 1, activeUsers = 1, onConnect = False, onConnectCalls = [] \<rparr>,
      sampleHeap)"
  by (simp add: afterFirst_def Register_def evictOld_def storeNew_def countActiveUsers_def
      NewConnectionManager_def sampleHeap_def openConn_def NewConnection_def Let_def)

lemma sampleHeap_1: "sampleHeap 11 = openConn"
  by (simp add: sampleHeap_def)

lemma sampleHeap_2: "sampleHeap 12 = connB"
  by (simp add: sampleHeap_def)

lemma kick_bytes: "sampleMarshal (kickMsg 2000 (DeviceID connB)) = Some ''json:''"
  by (simp add: sampleMarshal_def kickMsg_def zeroMessage_def)

lemma busyHeap_1: "busyHeap 11 = fullConn"
  by (simp add: busyHeap_def afterFirst_value sampleHeap_1 fullConn_def)

lemma busyHeap_2: "busyHeap 12 = connB"
  by (simp add: busyHeap_def afterFirst_value sampleHeap_2)

lemma fullConn_queue: "Send fullConn = [''m0'']"
  by (simp add: fullConn_def openConn_def NewConnection_def SendMessage_def)

text \<open>
  Claim C1, as stated, fails where it says that the first connection is sent (and
  receives) the notice: the send is the non-blocking \<open>SendMessage\<close>, and its error
  is ignored. Alice's first connection has a queue of capacity one that holds the
  item \<open>m0\<close> when her second connection is registered; the notice (which
  serialises to \<open>json:\<close>) is not queued. The first connection is closed with its
  queue as it was, and the second is stored.
\<close>

theorem superseded_notice_dropped:
  "UserID (busyHeap 11) = ''alice'' \<and> UserID (busyHeap 12) = ''alice'' \<and>
   GetConnection (fst afterFirst) ''alice'' = Some 11 \<and>
   sampleMarshal (kickMsg 2000 (DeviceID (busyHeap 12))) = Some ''json:'' \<and>
   Send (busyHeap 11) = [''m0''] \<and>
   snd afterSecond 11 = snd (Close fullConn) \<and>
   Send (snd afterSecond 11) = [''m0''] \<and>
   ''json:'' \<notin> set (Send (snd afterSecond 11)) \<and>
   closed (snd afterSecond 11) \<and>
   GetConnection (fst afterSecond) ''alice'' = Some 12"
proof -
  have found: "map_of (connections (fst afterFirst)) (UserID (busyHeap 12)) = Some 11"
    by (simp add: afterFirst_value busyHeap_2 connB_def SetDeviceID_def NewConnection_def)
  have send: "snd (SendJSON sampleMarshal fullConn (kickMsg 2000 (DeviceID connB))) = fullConn"
    using fullConn_full by (simp add: SendJSON_def kick_bytes SendMessage_def)
  have ev: "evictOld sampleMarshal 2000 (fst afterFirst, busyHeap) 12 =
      (fst afterFirst\<lparr> connections := AList.delete (UserID (busyHeap 12)) (connections (fst afterFirst)),
               connByID := AList.delete (ID (busyHeap 11)) (connByID (fst afterFirst)) \<rparr>,
       busyHeap(11 := snd (Close fullConn)))"
    using evictOld_found [where m = "fst afterFirst" and h = busyHeap and conn = 12 and old = 11
        and marshal = sampleMarshal and now = 2000, OF found]
    by (simp add: busyHeap_1 busyHeap_2 send)
  have heap2: "snd afterSecond = busyHeap(11 := snd (Close fullConn))"
    by (simp add: afterSecond_def Register_def ev storeNew_def Let_def)
  have conns2: "GetConnection (fst afterSecond) ''alice'' = Some 12"
    by (simp add: afterSecond_def Register_def ev storeNew_def Let_def GetConnection_def
        busyHeap_2 connB_def SetDeviceID_def NewConnection_def map_of_update_same)
  have old: "snd afterSecond 11 = snd (Close fullConn)" by (simp add: heap2)
  have q: "Send (snd afterSecond 11) = [''m0'']"
    by (simp add: old Close_keeps fullConn_queue)
  have users: "UserID (busyHeap 11) = ''alice'' \<and> UserID (busyHeap 12) = ''alice''"
    by (simp add: busyHeap_1 busyHeap_2 fullConn_def openConn_def connB_def SetDeviceID_def
        NewConnection_def SendMessage_def)
  have first: "GetConnection (fst afterFirst) ''alice'' = Some 11"
    by (simp add: afterFirst_value GetConnection_def)
  have cl: "closed (snd afterSecond 11)" unfolding old by (rule Close_closed)
  have k: "sampleMarshal (kickMsg 2000 (DeviceID (busyHeap 12))) = Some ''json:''"
    by (simp add: busyHeap_2 kick_bytes)
  have b1: "Send (busyHeap 11) = [''m0'']" by (simp add: busyHeap_1 fullConn_queue)
  from users first k b1 old q cl conns2 show ?thesis by simp
qed

theorem Register_supersedes_witness:
  "UserID (sampleHeap 11) = ''alice'' \<and> UserID (snd afterFirst 12) = ''alice'' \<and>
   (11::nat) \<noteq> 12 \<and>
   GetConnection (fst afterFirst) ''alice'' = Some 11 \<and>
   GetConnection (fst (evictOld sampleMarshal 2000 (fst afterFirst, snd afterFirst) 12)) ''alice'' = None \<and>
   closed (snd (evictOld sampleMarshal 2000 (fst afterFirst, snd afterFirst) 12) 11) \<and>
   \<not> closed (snd afterFirst 11) \<and> length (Send (snd afterFirst 11)) < sendCap (snd afterFirst 11) \<and>
   sampleMarshal (kickMsg 2000 (DeviceID (snd afterFirst 12))) = Some ''json:'' \<and>
   Send (snd afterSecondIdle 11) = [''json:''] \<and>
   closed (snd afterSecondIdle 11) \<and>
   filter (\<lambda>p. fst p = ''alice'') (connections (fst afterSecondIdle)) = [(''alice'', 12)] \<and>
   GetConnection (fst afterSecondIdle) ''alice'' = Some 12 \<and>
   GetConnectionByID (fst afterSecondIdle) ''conn-1'' = None \<and>
   snd afterSecondIdle 12 = connB"
proof -
  let ?ev = "evictOld sampleMarshal 2000 (fst afterFirst, snd afterFirst) 12"
  have u1: "UserID (sampleHeap 11) = ''alice''"
    by (simp add: sampleHeap_1 openConn_def NewConnection_def)
  have u2: "UserID (snd afterFirst 12) = ''alice''"
    by (simp add: afterFirst_value sampleHeap_2 connB_def SetDeviceID_def NewConnection_def)
  have ne: "(11::nat) \<noteq> 12" by simp
  have r1: "Register sampleMarshal 1000 (NewConnectionManager ''node1'', sampleHeap) 11 =
      (fst afterFirst, snd afterFirst)"
    by (simp add: afterFirst_def)
  have ev: "?ev = (fst ?ev, snd ?ev)"
    by (rule prod.collapse [symmetric])
  have r2: "Register sampleMarshal 2000 (fst afterFirst, snd afterFirst) 12 =
      (fst afterSecondIdle, snd afterSecondIdle)"
    by (simp add: afterSecondIdle_def)
  note main = Register_supersedes [where data = "''json:''", OF u1 u2 ne r1 ev r2]
  have op: "\<not> closed (snd afterFirst 11) \<and> length (Send (snd afterFirst 11)) < sendCap (snd afterFirst 11)"
    using openConn_open by (simp add: afterFirst_value sampleHeap_1)
  have k: "sampleMarshal (kickMsg 2000 (DeviceID (snd afterFirst 12))) = Some ''json:''"
    by (simp add: afterFirst_value sampleHeap_2 kick_bytes)
  have q0: "Send (snd afterFirst 11) = []"
    by (simp add: afterFirst_value sampleHeap_1 openConn_def NewConnection_def)
  have id1: "ID (snd afterFirst 11) = ''conn-1''"
    by (simp add: afterFirst_value sampleHeap_1 openConn_def NewConnection_def)
  have id2: "ID (snd afterFirst 12) = ''conn-2''"
    by (simp add: afterFirst_value sampleHeap_2 connB_def SetDeviceID_def NewConnection_def)
  from main have first: "GetConnection (fst afterFirst) ''alice'' = Some 11" by blast
  from main have gone: "GetConnection (fst ?ev) ''alice'' = None" by blast
  from main have cle: "closed (snd ?ev 11)" by blast
  from main op k have "Send (snd ?ev 11) = Send (snd afterFirst 11) @ [''json:'']" by blast
  then have qe: "Send (snd ?ev 11) = [''json:'']" by (simp only: q0 append_Nil)
  from main have heq: "snd afterSecondIdle = snd ?ev" by blast
  have q: "Send (snd afterSecondIdle 11) = [''json:'']" by (simp only: heq qe)
  have cl: "closed (snd afterSecondIdle 11)" by (simp only: heq cle)
  from main have one: "filter (\<lambda>p. fst p = ''alice'') (connections (fst afterSecondIdle)) =
      [(''alice'', 12)]" by blast
  from main have get2: "GetConnection (fst afterSecondIdle) ''alice'' = Some 12" by blast
  from main have "ID (snd afterFirst 11) \<noteq> ID (snd afterFirst 12) \<longrightarrow>
      GetConnectionByID (fst afterSecondIdle) (ID (snd afterFirst 11)) = None" by blast
  then have byid: "GetConnectionByID (fst afterSecondIdle) ''conn-1'' = None"
    by (simp add: id1 id2)
  from main have "snd afterSecondIdle 12 = snd afterFirst 12" by blast
  then have c2: "snd afterSecondIdle 12 = connB"
    by (simp add: afterFirst_value sampleHeap_2)
  from u1 u2 ne first gone cle op k q cl one get2 byid c2 show ?thesis by blast
qed

end
